theory Spec2Isabelle
  imports Main "HOL-Library.Multiset"
begin

section \<open>Values, rows and the backend store\<close>

text \<open>
  The application (\<^verbatim>\<open>src/app.py\<close>) is dynamically typed: column values, session
  values and JSON members are Python values. \<open>val\<close> holds the ones that occur:
  \<^verbatim>\<open>None\<close>, booleans, integers and strings.
\<close>

datatype val = VNone | VBool bool | VInt int | VStr string

text \<open>
  A dictionary handed to the backend or to \<^verbatim>\<open>jsonify\<close> is a list of key/value pairs;
  the session and the bodies of a request are finite maps.
\<close>

type_synonym dict = "(string \<times> val) list"

type_synonym session = "string \<rightharpoonup> val"

text \<open>\<^verbatim>\<open>d.get(k)\<close>: the value stored under \<open>k\<close>, \<^verbatim>\<open>None\<close> when there is none.\<close>

definition dict_get :: "(string \<rightharpoonup> val) \<Rightarrow> string \<Rightarrow> val" where
  "dict_get m k = (case m k of None \<Rightarrow> VNone | Some v \<Rightarrow> v)"

text \<open>
  The three tables of the backend. A row returned by \<^verbatim>\<open>select("*")\<close> holds every
  column of its table, so a row is a record of its columns; a column that holds SQL
  NULL reads as \<^verbatim>\<open>None\<close>. \<open>created_at\<close> is the one column the code orders by: a time,
  or NULL.
\<close>

record resource =
  r_id :: val
  r_name :: val
  r_image_url :: val

record status_update =
  s_id :: val
  s_resource_id :: val
  status_message :: val
  crowd_level :: val
  chips_available :: val
  queue_length :: val
  created_at :: "nat option"

record upvote_row =
  u_id :: val
  u_resource_id :: val
  u_user_id :: val

record db =
  resources :: "resource list"
  status_updates :: "status_update list"
  upvotes :: "upvote_row list"

subsection \<open>What the backend does with a query\<close>

text \<open>
  \<^verbatim>\<open>insert(payload)\<close> appends one row; a column the payload does not name is NULL.
  (A default that the backend's schema gives a column is no part of the code.)
\<close>

definition col :: "dict \<Rightarrow> string \<Rightarrow> val" where
  "col p k = (case map_of p k of None \<Rightarrow> VNone | Some v \<Rightarrow> v)"

definition resource_of :: "dict \<Rightarrow> resource" where
  "resource_of p =
     \<lparr>r_id = col p ''id'', r_name = col p ''name'', r_image_url = col p ''image_url''\<rparr>"

definition status_update_of :: "dict \<Rightarrow> status_update" where
  "status_update_of p =
     \<lparr>s_id = col p ''id'', s_resource_id = col p ''resource_id'',
      status_message = col p ''status_message'', crowd_level = col p ''crowd_level'',
      chips_available = col p ''chips_available'', queue_length = col p ''queue_length'',
      created_at = (case map_of p ''created_at'' of Some (VInt t) \<Rightarrow> Some (nat t) | _ \<Rightarrow> None)\<rparr>"

definition upvote_of :: "dict \<Rightarrow> upvote_row" where
  "upvote_of p =
     \<lparr>u_id = col p ''id'', u_resource_id = col p ''resource_id'', u_user_id = col p ''user_id''\<rparr>"

definition insert_resource :: "dict \<Rightarrow> db \<Rightarrow> db" where
  "insert_resource p d = d\<lparr>resources := resources d @ [resource_of p]\<rparr>"

definition insert_status_update :: "dict \<Rightarrow> db \<Rightarrow> db" where
  "insert_status_update p d = d\<lparr>status_updates := status_updates d @ [status_update_of p]\<rparr>"

definition insert_upvote :: "dict \<Rightarrow> db \<Rightarrow> db" where
  "insert_upvote p d = d\<lparr>upvotes := upvotes d @ [upvote_of p]\<rparr>"

text \<open>
  \<^verbatim>\<open>.eq(column, value)\<close> is the equality of the backend's SQL: a row passes when its
  column holds the value. NULL equals nothing there, so a column that is NULL passes no
  filter, and a filter whose value is \<^verbatim>\<open>None\<close> passes no row.
\<close>

definition eq_matches :: "val \<Rightarrow> val \<Rightarrow> bool" where
  "eq_matches column v = (column \<noteq> VNone \<and> v \<noteq> VNone \<and> column = v)"

text \<open>\<^verbatim>\<open>table('status_updates').select("*").eq('resource_id', rid)\<close>\<close>

definition status_updates_eq :: "db \<Rightarrow> val \<Rightarrow> status_update list" where
  "status_updates_eq d rid = filter (\<lambda>s. eq_matches (s_resource_id s) rid) (status_updates d)"

text \<open>
  \<^verbatim>\<open>.order('created_at', desc=True)\<close>: descending by time, rows without a time first
  (the backend's order for a descending sort), rows of equal time in table order.
\<close>

definition created_key :: "status_update \<Rightarrow> int" where
  "created_key s = (case created_at s of None \<Rightarrow> 0 | Some t \<Rightarrow> - int t)"

definition order_created_at_desc :: "status_update list \<Rightarrow> status_update list" where
  "order_created_at_desc rows =
     filter (\<lambda>s. created_at s = None) rows
     @ sort_key created_key (filter (\<lambda>s. created_at s \<noteq> None) rows)"

text \<open>\<^verbatim>\<open>table('upvotes').select('id', count='exact').eq('resource_id', rid)\<close>: the
  matching rows; \<^verbatim>\<open>.count\<close> is their number.\<close>

definition upvotes_eq :: "db \<Rightarrow> val \<Rightarrow> upvote_row list" where
  "upvotes_eq d rid = filter (\<lambda>u. eq_matches (u_resource_id u) rid) (upvotes d)"

definition count_upvotes :: "db \<Rightarrow> val \<Rightarrow> int" where
  "count_upvotes d rid = int (length (upvotes_eq d rid))"

text \<open>\<^verbatim>\<open>table('upvotes').select('*').eq('resource_id', rid).eq('user_id', uid)\<close>\<close>

definition upvotes_eq2 :: "db \<Rightarrow> val \<Rightarrow> val \<Rightarrow> upvote_row list" where
  "upvotes_eq2 d rid uid =
     filter (\<lambda>u. eq_matches (u_user_id u) uid)
       (filter (\<lambda>u. eq_matches (u_resource_id u) rid) (upvotes d))"

text \<open>\<^verbatim>\<open>table('status_updates').update(payload).eq('resource_id', rid)\<close> with the four
  columns that \<^verbatim>\<open>update_post\<close> sends.\<close>

definition update_status_fields :: "dict \<Rightarrow> status_update \<Rightarrow> status_update" where
  "update_status_fields p s =
     s\<lparr>crowd_level := col p ''crowd_level'', chips_available := col p ''chips_available'',
       queue_length := col p ''queue_length'', status_message := col p ''status_message''\<rparr>"

definition update_status_updates_eq :: "dict \<Rightarrow> val \<Rightarrow> db \<Rightarrow> db" where
  "update_status_updates_eq p rid d =
     d\<lparr>status_updates :=
         map (\<lambda>s. if eq_matches (s_resource_id s) rid then update_status_fields p s else s)
           (status_updates d)\<rparr>"

section \<open>The aggregation function\<close>

record post =
  p_id :: val
  p_title :: val
  p_image_url :: val
  p_description :: val
  p_upvotes :: int
  p_comments :: int
  p_crowd :: val
  p_chips :: val
  p_queue :: val

text \<open>\<^verbatim>\<open>status_response.data[0] if status_response.data else None\<close>, after
  \<^verbatim>\<open>.order('created_at', desc=True).limit(1)\<close>.\<close>

definition latest_status :: "db \<Rightarrow> val \<Rightarrow> status_update option" where
  "latest_status d rid =
     (case take 1 (order_created_at_desc (status_updates_eq d rid)) of
        [] \<Rightarrow> None
      | s # _ \<Rightarrow> Some s)"

text \<open>The body of the loop of \<^verbatim>\<open>fetch_posts\<close>: the post built for one resource.\<close>

definition make_post :: "db \<Rightarrow> resource \<Rightarrow> post" where
  "make_post d resource =
     (let status = latest_status d (r_id resource);
          upvotes_count = count_upvotes d (r_id resource)
      in \<lparr>p_id = r_id resource,
          p_title = r_name resource,
          p_image_url = r_image_url resource,
          p_description = (case status of Some s \<Rightarrow> status_message s | None \<Rightarrow> VStr ''''),
          p_upvotes = upvotes_count,
          p_comments = 0,
          p_crowd = (case status of Some s \<Rightarrow> crowd_level s | None \<Rightarrow> VStr ''''),
          p_chips = (case status of Some s \<Rightarrow> chips_available s | None \<Rightarrow> VStr ''''),
          p_queue = (case status of Some s \<Rightarrow> queue_length s | None \<Rightarrow> VStr '''')\<rparr>)"

text \<open>\<^verbatim>\<open>for resource in resources: ... posts.append(post)\<close>\<close>

fun fetch_loop :: "db \<Rightarrow> resource list \<Rightarrow> post list \<Rightarrow> post list" where
  "fetch_loop d [] posts = posts"
| "fetch_loop d (resource # rest) posts = fetch_loop d rest (posts @ [make_post d resource])"

text \<open>
  \<^verbatim>\<open>posts.sort(key=lambda x: x['upvotes'], reverse=True)\<close>: Python's sort is stable,
  also with \<^verbatim>\<open>reverse=True\<close>, so it is the stable ascending sort on the negated key.
\<close>

definition fetch_posts :: "db \<Rightarrow> post list" where
  "fetch_posts d = sort_key (\<lambda>x. - p_upvotes x) (fetch_loop d (resources d) [])"

section \<open>Requests, responses and handlers\<close>

text \<open>
  A request carries its method, its form fields and its JSON body (\<open>None\<close> when the
  body is not a JSON object, in which case reading a member of it fails).
\<close>

record request =
  req_method :: string
  req_form :: "string \<rightharpoonup> string"
  req_json :: "(string \<rightharpoonup> val) option"

text \<open>
  What a handler returns: \<^verbatim>\<open>jsonify(body), status\<close>; \<^verbatim>\<open>redirect(url_for(endpoint))\<close>;
  \<^verbatim>\<open>render_template(name, **context)\<close>; the 400 response that the framework sends
  when \<^verbatim>\<open>request.form[key]\<close> misses its key; and a request that ends in an error
  before the handler has called the backend.
\<close>

datatype response =
    Jsonify dict nat
  | Redirect string
  | RenderTemplate string dict
  | Abort nat
  | Failed

text \<open>A handler runs on the session and the store and leaves both behind.\<close>

record outcome =
  resp :: response
  sess :: session
  store :: db

subsection \<open>Upvote\<close>

text \<open>\<open>uuid\<close> is the value that \<^verbatim>\<open>str(uuid4())\<close> gives during the request.\<close>

definition upvote :: "request \<Rightarrow> string \<Rightarrow> session \<Rightarrow> db \<Rightarrow> outcome" where
  "upvote req uuid s d =
     (if s ''username'' = None
      then \<lparr>resp = Jsonify [(''error'', VStr ''Login required'')] 401, sess = s, store = d\<rparr>
      else
        (case req_json req of
           None \<Rightarrow> \<lparr>resp = Failed, sess = s, store = d\<rparr>
         | Some body \<Rightarrow>
            (let resource_id = dict_get body ''resource_id'';
                 user_id = dict_get s ''user_id'';
                 result = upvotes_eq2 d resource_id user_id
             in if result \<noteq> []
                then \<lparr>resp = Jsonify [(''error'', VStr ''Already upvoted'')] 409,
                      sess = s, store = d\<rparr>
                else
                  (let d' = insert_upvote
                              [(''id'', VStr uuid), (''resource_id'', resource_id),
                               (''user_id'', user_id)] d;
                       count = count_upvotes d' resource_id
                   in \<lparr>resp = Jsonify [(''success'', VBool True), (''upvotes'', VInt count)] 200,
                       sess = s, store = d'\<rparr>))))"

subsection \<open>Access control\<close>

definition login_required :: "(session \<Rightarrow> db \<Rightarrow> outcome) \<Rightarrow> session \<Rightarrow> db \<Rightarrow> outcome" where
  "login_required f s d =
     (if s ''username'' = None then \<lparr>resp = Redirect ''login'', sess = s, store = d\<rparr>
      else f s d)"

subsection \<open>Login and register\<close>

text \<open>
  What \<^verbatim>\<open>supabase.auth.sign_in_with_password\<close> and \<^verbatim>\<open>supabase.auth.sign_up\<close> can do:
  return a response whose \<^verbatim>\<open>user\<close> is set (\<open>SignedIn\<close> carries \<^verbatim>\<open>user.user.id\<close>),
  return one that is empty or has no user, or raise an exception \<open>e\<close> (\<open>Raised\<close>
  carries \<^verbatim>\<open>str(e)\<close>).
\<close>

datatype sign_result = SignedIn val | NoUser | Raised string

type_synonym auth = "string \<Rightarrow> string \<Rightarrow> sign_result"

definition login :: "auth \<Rightarrow> request \<Rightarrow> session \<Rightarrow> db \<Rightarrow> outcome" where
  "login sign_in_with_password req s d =
     (if req_method req = ''POST'' then
        (case req_form req ''username'' of
           None \<Rightarrow> \<lparr>resp = Abort 400, sess = s, store = d\<rparr>
         | Some username \<Rightarrow>
            (case req_form req ''password'' of
               None \<Rightarrow> \<lparr>resp = Abort 400, sess = s, store = d\<rparr>
             | Some password \<Rightarrow>
                (case sign_in_with_password username password of
                   SignedIn uid \<Rightarrow>
                     \<lparr>resp = Redirect ''profile'',
                      sess = s(''username'' \<mapsto> VStr username, ''is_admin'' \<mapsto> VBool False,
                               ''user_id'' \<mapsto> uid),
                      store = d\<rparr>
                 | NoUser \<Rightarrow>
                     \<lparr>resp = RenderTemplate ''login.html'' [(''error'', VStr ''Invalid credentials'')],
                      sess = s, store = d\<rparr>
                 | Raised e \<Rightarrow>
                     \<lparr>resp = RenderTemplate ''login.html'' [(''error'', VStr e)],
                      sess = s, store = d\<rparr>)))
      else \<lparr>resp = RenderTemplate ''login.html'' [], sess = s, store = d\<rparr>)"

definition register :: "auth \<Rightarrow> request \<Rightarrow> session \<Rightarrow> db \<Rightarrow> outcome" where
  "register sign_up req s d =
     (if req_method req = ''POST'' then
        (case req_form req ''username'' of
           None \<Rightarrow> \<lparr>resp = Abort 400, sess = s, store = d\<rparr>
         | Some username \<Rightarrow>
            (case req_form req ''password'' of
               None \<Rightarrow> \<lparr>resp = Abort 400, sess = s, store = d\<rparr>
             | Some password \<Rightarrow>
                (case sign_up username password of
                   SignedIn uid \<Rightarrow>
                     \<lparr>resp = Redirect ''profile'',
                      sess = s(''username'' \<mapsto> VStr username, ''user_id'' \<mapsto> uid),
                      store = d\<rparr>
                 | NoUser \<Rightarrow>
                     \<lparr>resp = RenderTemplate ''register.html''
                               [(''error'', VStr ''Registration failed'')],
                      sess = s, store = d\<rparr>
                 | Raised e \<Rightarrow>
                     \<lparr>resp = RenderTemplate ''register.html'' [(''error'', VStr e)],
                      sess = s, store = d\<rparr>)))
      else \<lparr>resp = RenderTemplate ''register.html'' [], sess = s, store = d\<rparr>)"

subsection \<open>Update and create\<close>

text \<open>The dictionary that \<^verbatim>\<open>update_post\<close> inserts when the resource has no status row.\<close>

definition update_post_insert_payload ::
  "string \<Rightarrow> string \<Rightarrow> string \<Rightarrow> string \<Rightarrow> string \<Rightarrow> string \<Rightarrow> dict" where
  "update_post_insert_payload uuid post_id description crowd chips queue =
     [(''id'', VStr uuid), (''resource_id'', VStr post_id),
      (''crowd_level'', VStr crowd), (''chips_available'', VStr chips),
      (''queue_length'', VStr queue), (''status_message'', VStr description)]"

text \<open>The dictionary that \<^verbatim>\<open>create_post\<close> inserts into \<^verbatim>\<open>status_updates\<close>.\<close>

definition create_post_status_payload ::
  "string \<Rightarrow> val \<Rightarrow> string \<Rightarrow> string \<Rightarrow> string \<Rightarrow> string \<Rightarrow> dict" where
  "create_post_status_payload uuid resource_id description crowd chips queue =
     [(''id'', VStr uuid), (''resource_id'', resource_id),
      (''status_message'', VStr description), (''crowd_level'', VStr crowd),
      (''chips_available'', VStr chips), (''queue_length'', VStr queue)]"

text \<open>The dictionary of the \<^verbatim>\<open>update\<close> branch.\<close>

definition update_payload :: "string \<Rightarrow> string \<Rightarrow> string \<Rightarrow> string \<Rightarrow> dict" where
  "update_payload description crowd chips queue =
     [(''crowd_level'', VStr crowd), (''chips_available'', VStr chips),
      (''queue_length'', VStr queue), (''status_message'', VStr description)]"

definition update_post_body :: "string \<Rightarrow> request \<Rightarrow> string \<Rightarrow> session \<Rightarrow> db \<Rightarrow> outcome" where
  "update_post_body post_id req uuid s d =
     (case req_form req ''description'' of
        None \<Rightarrow> \<lparr>resp = Abort 400, sess = s, store = d\<rparr>
      | Some description \<Rightarrow>
     (case req_form req ''crowd'' of
        None \<Rightarrow> \<lparr>resp = Abort 400, sess = s, store = d\<rparr>
      | Some crowd \<Rightarrow>
     (case req_form req ''chips'' of
        None \<Rightarrow> \<lparr>resp = Abort 400, sess = s, store = d\<rparr>
      | Some chips \<Rightarrow>
     (case req_form req ''queue'' of
        None \<Rightarrow> \<lparr>resp = Abort 400, sess = s, store = d\<rparr>
      | Some queue \<Rightarrow>
         (let status = status_updates_eq d (VStr post_id);
              d' = (if status \<noteq> []
                    then update_status_updates_eq
                           (update_payload description crowd chips queue) (VStr post_id) d
                    else insert_status_update
                           (update_post_insert_payload uuid post_id description crowd chips queue) d)
          in \<lparr>resp = Redirect ''index'', sess = s, store = d'\<rparr>)))))"

definition update_post :: "string \<Rightarrow> request \<Rightarrow> string \<Rightarrow> session \<Rightarrow> db \<Rightarrow> outcome" where
  "update_post post_id req uuid = login_required (update_post_body post_id req uuid)"

text \<open>\<open>uuid1\<close> and \<open>uuid2\<close> are the two values of \<^verbatim>\<open>str(uuid4())\<close>, in the order drawn.\<close>

definition create_post_body :: "request \<Rightarrow> string \<Rightarrow> string \<Rightarrow> session \<Rightarrow> db \<Rightarrow> outcome" where
  "create_post_body req uuid1 uuid2 s d =
     (if req_method req = ''POST'' then
     (case req_form req ''title'' of
        None \<Rightarrow> \<lparr>resp = Abort 400, sess = s, store = d\<rparr>
      | Some title \<Rightarrow>
     (case req_form req ''description'' of
        None \<Rightarrow> \<lparr>resp = Abort 400, sess = s, store = d\<rparr>
      | Some description \<Rightarrow>
     (case req_form req ''crowd'' of
        None \<Rightarrow> \<lparr>resp = Abort 400, sess = s, store = d\<rparr>
      | Some crowd \<Rightarrow>
     (case req_form req ''chips'' of
        None \<Rightarrow> \<lparr>resp = Abort 400, sess = s, store = d\<rparr>
      | Some chips \<Rightarrow>
     (case req_form req ''queue'' of
        None \<Rightarrow> \<lparr>resp = Abort 400, sess = s, store = d\<rparr>
      | Some queue \<Rightarrow>
         (let resource_id = VStr uuid1;
              d1 = insert_resource [(''id'', resource_id), (''name'', VStr title)] d;
              d2 = insert_status_update
                     (create_post_status_payload uuid2 resource_id description crowd chips queue) d1
          in \<lparr>resp = Redirect ''index'', sess = s, store = d2\<rparr>))))))
      else \<lparr>resp = RenderTemplate ''create_post.html'' [], sess = s, store = d\<rparr>)"

definition create_post :: "request \<Rightarrow> string \<Rightarrow> string \<Rightarrow> session \<Rightarrow> db \<Rightarrow> outcome" where
  "create_post req uuid1 uuid2 = login_required (create_post_body req uuid1 uuid2)"

section \<open>Sample data\<close>

text \<open>
  A store with two resources: \<open>r1\<close> has neither a status row nor an upvote, \<open>r2\<close> has one
  of each. A signed-in session, and the requests that the handlers are run on below.
\<close>

definition example_db :: db where
  "example_db =
     \<lparr>resources =
        [\<lparr>r_id = VStr ''r1'', r_name = VStr ''Canteen'', r_image_url = VNone\<rparr>,
         \<lparr>r_id = VStr ''r2'', r_name = VStr ''Library'', r_image_url = VNone\<rparr>],
      status_updates =
        [\<lparr>s_id = VStr ''s1'', s_resource_id = VStr ''r2'', status_message = VStr ''open'',
          crowd_level = VStr ''low'', chips_available = VStr ''yes'', queue_length = VStr ''3'',
          created_at = None\<rparr>],
      upvotes =
        [\<lparr>u_id = VStr ''v1'', u_resource_id = VStr ''r2'', u_user_id = VStr ''alice''\<rparr>]\<rparr>"

definition example_session :: session where
  "example_session =
     [''username'' \<mapsto> VStr ''alice@example.org'', ''is_admin'' \<mapsto> VBool False,
      ''user_id'' \<mapsto> VStr ''alice'']"

definition example_upvote_request :: request where
  "example_upvote_request =
     \<lparr>req_method = ''POST'', req_form = Map.empty,
      req_json = Some [''resource_id'' \<mapsto> VStr ''r2'']\<rparr>"

definition example_login_request :: request where
  "example_login_request =
     \<lparr>req_method = ''POST'',
      req_form = [''username'' \<mapsto> ''alice@example.org'', ''password'' \<mapsto> ''secret''],
      req_json = None\<rparr>"

definition example_post_request :: request where
  "example_post_request =
     \<lparr>req_method = ''POST'',
      req_form = [''title'' \<mapsto> ''Gym'', ''description'' \<mapsto> ''busy'', ''crowd'' \<mapsto> ''high'',
                  ''chips'' \<mapsto> ''no'', ''queue'' \<mapsto> ''12''],
      req_json = None\<rparr>"

section \<open>The listing\<close>

lemma fetch_loop_map: "fetch_loop d rs posts = posts @ map (make_post d) rs"
  by (induction rs arbitrary: posts) simp_all

lemma mset_fetch_posts: "mset (fetch_posts d) = image_mset (make_post d) (mset (resources d))"
  by (simp add: fetch_posts_def fetch_loop_map)

lemma length_fetch_posts: "length (fetch_posts d) = length (resources d)"
  by (simp add: fetch_posts_def fetch_loop_map)

lemma set_fetch_posts: "set (fetch_posts d) = make_post d ` set (resources d)"
  by (simp add: fetch_posts_def fetch_loop_map)

lemma make_post_id: "p_id (make_post d r) = r_id r"
  by (simp add: make_post_def Let_def)

lemma make_post_upvotes:
  "p_upvotes (make_post d r) =
     (if r_id r = VNone then 0
      else int (card {i. i < length (upvotes d) \<and> u_resource_id (upvotes d ! i) = r_id r}))"
proof (cases "r_id r = VNone")
  case True
  then show ?thesis
    by (simp add: make_post_def Let_def count_upvotes_def upvotes_eq_def eq_matches_def)
next
  case False
  then have "{i. i < length (upvotes d) \<and> eq_matches (u_resource_id (upvotes d ! i)) (r_id r)}
             = {i. i < length (upvotes d) \<and> u_resource_id (upvotes d ! i) = r_id r}"
    by (auto simp: eq_matches_def)
  with False show ?thesis
    by (simp add: make_post_def Let_def count_upvotes_def upvotes_eq_def length_filter_conv_card)
qed

text \<open>
  C1. \<open>fetch_posts\<close> returns one post per resource row: as a multiset, the result is the
  image of the resource rows under \<open>make_post\<close>, the post of a resource carries the id
  of that resource, and every post of the result has as \<open>upvotes\<close> the number of upvote
  rows (counted as positions in the table) whose \<open>resource_id\<close> is the id of that post.
  (Were the id of a resource row NULL, no upvote row would refer to it and the number
  would be 0.)
\<close>

theorem fetch_posts_one_post_per_resource:
  "mset (fetch_posts d) = image_mset (make_post d) (mset (resources d))
   \<and> length (fetch_posts d) = length (resources d)
   \<and> (\<forall>r. p_id (make_post d r) = r_id r)
   \<and> (\<forall>p \<in> set (fetch_posts d).
         p_upvotes p =
           (if p_id p = VNone then 0
            else int (card {i. i < length (upvotes d)
                               \<and> u_resource_id (upvotes d ! i) = p_id p})))"
proof -
  have "p_upvotes p =
          (if p_id p = VNone then 0
           else int (card {i. i < length (upvotes d) \<and> u_resource_id (upvotes d ! i) = p_id p}))"
    if "p \<in> set (fetch_posts d)" for p
  proof -
    from that obtain r where "p = make_post d r"
      by (auto simp: set_fetch_posts)
    then show ?thesis
      using make_post_upvotes [of d r] by (simp add: make_post_id)
  qed
  then show ?thesis
    using mset_fetch_posts length_fetch_posts make_post_id by blast
qed

theorem fetch_posts_one_post_per_resource_witness:
  "length (fetch_posts example_db) = 2
   \<and> fetch_posts example_db ! 0 \<in> set (fetch_posts example_db)
   \<and> p_id (fetch_posts example_db ! 0) = VStr ''r2''
   \<and> p_upvotes (fetch_posts example_db ! 0) = 1
   \<and> card {i. i < length (upvotes example_db)
               \<and> u_resource_id (upvotes example_db ! i) = VStr ''r2''} = 1"
proof -
  have ev: "fetch_posts example_db =
      [make_post example_db \<lparr>r_id = VStr ''r2'', r_name = VStr ''Library'', r_image_url = VNone\<rparr>,
       make_post example_db \<lparr>r_id = VStr ''r1'', r_name = VStr ''Canteen'', r_image_url = VNone\<rparr>]"
    by (simp add: fetch_posts_def example_db_def make_post_def Let_def count_upvotes_def
        upvotes_eq_def eq_matches_def)
  show ?thesis
    using fetch_posts_one_post_per_resource [of example_db]
    by (simp add: ev make_post_id)
       (simp add: make_post_def Let_def count_upvotes_def upvotes_eq_def eq_matches_def
          example_db_def)
qed

text \<open>
  C2. The result of \<open>fetch_posts\<close> is in descending order of \<open>upvotes\<close>: of two posts,
  the one at the earlier position has at least as many upvotes as the later one.
\<close>

theorem fetch_posts_sorted_desc:
  "i < j \<Longrightarrow> j < length (fetch_posts d) \<Longrightarrow>
     p_upvotes (fetch_posts d ! j) \<le> p_upvotes (fetch_posts d ! i)"
proof -
  assume ij: "i < j" and j: "j < length (fetch_posts d)"
  have "sorted (map (\<lambda>x. - p_upvotes x) (fetch_posts d))"
    by (simp add: fetch_posts_def)
  then have "map (\<lambda>x. - p_upvotes x) (fetch_posts d) ! i
               \<le> map (\<lambda>x. - p_upvotes x) (fetch_posts d) ! j"
    using ij j by (simp add: sorted_iff_nth_mono del: nth_map)
  then show ?thesis using ij j by simp
qed

theorem fetch_posts_sorted_desc_witness:
  "(0::nat) < 1 \<and> 1 < length (fetch_posts example_db)
   \<and> p_upvotes (fetch_posts example_db ! 1) \<le> p_upvotes (fetch_posts example_db ! 0)
   \<and> map p_upvotes (fetch_posts example_db) = [1, 0]"
  using fetch_posts_sorted_desc [of 0 1 example_db]
  by (simp add: fetch_posts_def example_db_def make_post_def Let_def count_upvotes_def
      upvotes_eq_def eq_matches_def)

text \<open>
  C9. A resource that no status row and no upvote row refers to is listed with empty
  strings for \<open>description\<close>, \<open>crowd\<close>, \<open>chips\<close> and \<open>queue\<close>, with 0 upvotes and 0 comments,
  under its own id, name and image.
\<close>

theorem fetch_posts_bare_resource:
  assumes "r \<in> set (resources d)"
    and "\<forall>s \<in> set (status_updates d). s_resource_id s \<noteq> r_id r"
    and "\<forall>u \<in> set (upvotes d). u_resource_id u \<noteq> r_id r"
  shows "\<lparr>p_id = r_id r, p_title = r_name r, p_image_url = r_image_url r,
          p_description = VStr '''', p_upvotes = 0, p_comments = 0,
          p_crowd = VStr '''', p_chips = VStr '''', p_queue = VStr ''''\<rparr> \<in> set (fetch_posts d)"
proof -
  have "status_updates_eq d (r_id r) = []"
    using assms(2) by (simp add: status_updates_eq_def eq_matches_def filter_empty_conv)
  then have st: "latest_status d (r_id r) = None"
    by (simp add: latest_status_def order_created_at_desc_def)
  have up: "count_upvotes d (r_id r) = 0"
    using assms(3) by (simp add: count_upvotes_def upvotes_eq_def eq_matches_def filter_empty_conv)
  have "make_post d r = \<lparr>p_id = r_id r, p_title = r_name r, p_image_url = r_image_url r,
          p_description = VStr '''', p_upvotes = 0, p_comments = 0,
          p_crowd = VStr '''', p_chips = VStr '''', p_queue = VStr ''''\<rparr>"
    by (simp add: make_post_def st up)
  then show ?thesis using assms(1) unfolding set_fetch_posts by (metis imageI)
qed

theorem fetch_posts_bare_resource_witness:
  "\<lparr>p_id = VStr ''r1'', p_title = VStr ''Canteen'', p_image_url = VNone,
     p_description = VStr '''', p_upvotes = 0, p_comments = 0,
     p_crowd = VStr '''', p_chips = VStr '''', p_queue = VStr ''''\<rparr> \<in> set (fetch_posts example_db)"
  using fetch_posts_bare_resource
    [of "\<lparr>r_id = VStr ''r1'', r_name = VStr ''Canteen'', r_image_url = VNone\<rparr>" example_db]
  by (simp add: example_db_def)

section \<open>Upvotes\<close>

text \<open>
  C7. An upvote request whose session has no \<open>username\<close> is answered with the JSON error
  \<open>Login required\<close> and status 401; nothing is inserted: the store, and with it the
  upvotes table, is as before.
\<close>

theorem upvote_login_required:
  assumes "s ''username'' = None"
  shows "resp (upvote req uuid s d) = Jsonify [(''error'', VStr ''Login required'')] 401
         \<and> store (upvote req uuid s d) = d
         \<and> upvotes (store (upvote req uuid s d)) = upvotes d
         \<and> sess (upvote req uuid s d) = s"
  using assms by (simp add: upvote_def)

theorem upvote_login_required_witness:
  "resp (upvote example_upvote_request ''u9'' Map.empty example_db)
     = Jsonify [(''error'', VStr ''Login required'')] 401
   \<and> upvotes (store (upvote example_upvote_request ''u9'' Map.empty example_db))
     = upvotes example_db"
  using upvote_login_required [of Map.empty example_upvote_request "''u9''" example_db]
  by simp



text \<open>
  A request whose body names no resource passes \<^verbatim>\<open>None\<close> to both filters of the
  handler: the check finds no row, also where a row with a NULL \<open>resource_id\<close> of the
  same user is stored, a further such row is inserted, and the recount is 0.
\<close>

lemma upvote_without_resource_id:
  "resp (upvote \<lparr>req_method = ''POST'', req_form = Map.empty, req_json = Some Map.empty\<rparr> ''u9''
           example_session
           (example_db\<lparr>upvotes :=
              [\<lparr>u_id = VStr ''v0'', u_resource_id = VNone, u_user_id = VStr ''alice''\<rparr>]\<rparr>))
     = Jsonify [(''success'', VBool True), (''upvotes'', VInt 0)] 200
   \<and> upvotes (store (upvote \<lparr>req_method = ''POST'', req_form = Map.empty,
                             req_json = Some Map.empty\<rparr> ''u9''
           example_session
           (example_db\<lparr>upvotes :=
              [\<lparr>u_id = VStr ''v0'', u_resource_id = VNone, u_user_id = VStr ''alice''\<rparr>]\<rparr>)))
     = [\<lparr>u_id = VStr ''v0'', u_resource_id = VNone, u_user_id = VStr ''alice''\<rparr>,
        \<lparr>u_id = VStr ''u9'', u_resource_id = VNone, u_user_id = VStr ''alice''\<rparr>]"
  by (simp add: upvote_def Let_def example_session_def dict_get_def upvotes_eq2_def eq_matches_def
      insert_upvote_def upvote_of_def col_def count_upvotes_def upvotes_eq_def)

section \<open>Signing in and signing up\<close>

text \<open>
  C3. After a sign-up that the backend accepts, \<open>register\<close> redirects to the profile page
  with \<open>username\<close> and \<open>user_id\<close> in the session, but it does not store \<open>is_admin\<close>: run
  on an empty session, the session has no such key afterwards. \<open>login\<close>, on the same
  request and the same answer of the backend, stores \<open>is_admin = False\<close>.
\<close>

theorem register_leaves_is_admin_unset:
  "resp (register (\<lambda>email password. SignedIn (VStr ''u1'')) example_login_request Map.empty
           example_db)
     = Redirect ''profile''
   \<and> sess (register (\<lambda>email password. SignedIn (VStr ''u1'')) example_login_request Map.empty
           example_db)
     = [''username'' \<mapsto> VStr ''alice@example.org'', ''user_id'' \<mapsto> VStr ''u1'']
   \<and> sess (register (\<lambda>email password. SignedIn (VStr ''u1'')) example_login_request Map.empty
           example_db) ''is_admin'' = None
   \<and> sess (login (\<lambda>email password. SignedIn (VStr ''u1'')) example_login_request Map.empty
           example_db) ''is_admin'' = Some (VBool False)"
  by (simp add: register_def login_def example_login_request_def)

text \<open>
  C8, as the code has it. A login POST with both form fields, for which the backend
  returns no user or raises an error, renders the login form again with an error
  string and leaves session and store as they were. The string is
  \<open>Invalid credentials\<close> when the backend returns no user, and the text of the error
  when it raises one, so it is non-empty whenever that text is.
\<close>

theorem login_failure:
  assumes "req_method req = ''POST''"
    and "req_form req ''username'' = Some username"
    and "req_form req ''password'' = Some password"
    and "sign_in username password = NoUser \<or> sign_in username password = Raised e"
  shows "\<exists>msg. resp (login sign_in req s d) = RenderTemplate ''login.html'' [(''error'', VStr msg)]
           \<and> (sign_in username password = NoUser \<longrightarrow> msg = ''Invalid credentials'')
           \<and> (sign_in username password = Raised e \<longrightarrow> msg = e)
           \<and> (e \<noteq> '''' \<longrightarrow> msg \<noteq> '''')
           \<and> sess (login sign_in req s d) = s
           \<and> store (login sign_in req s d) = d"
  using assms by (auto simp: login_def)

theorem login_failure_witness:
  "resp (login (\<lambda>email password. NoUser) example_login_request example_session example_db)
     = RenderTemplate ''login.html'' [(''error'', VStr ''Invalid credentials'')]
   \<and> resp (login (\<lambda>email password. Raised ''Invalid login credentials'')
            example_login_request example_session example_db)
     = RenderTemplate ''login.html'' [(''error'', VStr ''Invalid login credentials'')]
   \<and> sess (login (\<lambda>email password. Raised ''Invalid login credentials'')
            example_login_request example_session example_db) = example_session"
  using login_failure [of example_login_request "''alice@example.org''" "''secret''"
      "\<lambda>email password. NoUser"
      "''Invalid login credentials''" example_session example_db]
    login_failure [of example_login_request "''alice@example.org''" "''secret''"
      "\<lambda>email password. Raised ''Invalid login credentials''"
      "''Invalid login credentials''" example_session example_db]
  by (auto simp: example_login_request_def)

text \<open>
  C8 as stated fails where the backend raises an error whose text is empty: the form is
  rendered with the empty string as its error.
\<close>

theorem login_empty_error_counterexample:
  "resp (login (\<lambda>email password. Raised '''') example_login_request Map.empty example_db)
     = RenderTemplate ''login.html'' [(''error'', VStr '''')]"
  by (simp add: login_def example_login_request_def)

section \<open>Writing status rows\<close>

lemma update_post_signed_in:
  assumes "s ''username'' \<noteq> None"
    and "req_form req ''description'' = Some description"
    and "req_form req ''crowd'' = Some crowd"
    and "req_form req ''chips'' = Some chips"
    and "req_form req ''queue'' = Some queue"
  shows "update_post post_id req uuid s d =
           \<lparr>resp = Redirect ''index'', sess = s,
            store = (if status_updates_eq d (VStr post_id) \<noteq> []
                     then update_status_updates_eq
                            (update_payload description crowd chips queue) (VStr post_id) d
                     else insert_status_update
                            (update_post_insert_payload uuid post_id description crowd chips queue) d)\<rparr>"
  using assms by (simp add: update_post_def login_required_def update_post_body_def Let_def)

lemma create_post_signed_in:
  assumes "s ''username'' \<noteq> None"
    and "req_method req = ''POST''"
    and "req_form req ''title'' = Some title"
    and "req_form req ''description'' = Some description"
    and "req_form req ''crowd'' = Some crowd"
    and "req_form req ''chips'' = Some chips"
    and "req_form req ''queue'' = Some queue"
  shows "create_post req uuid1 uuid2 s d =
           \<lparr>resp = Redirect ''index'', sess = s,
            store = insert_status_update
                      (create_post_status_payload uuid2 (VStr uuid1) description crowd chips queue)
                      (insert_resource [(''id'', VStr uuid1), (''name'', VStr title)] d)\<rparr>"
  using assms by (simp add: create_post_def login_required_def create_post_body_def Let_def)

lemma status_update_of_update_post_insert_payload:
  "status_update_of (update_post_insert_payload uuid post_id description crowd chips queue) =
     \<lparr>s_id = VStr uuid, s_resource_id = VStr post_id, status_message = VStr description,
      crowd_level = VStr crowd, chips_available = VStr chips, queue_length = VStr queue,
      created_at = None\<rparr>"
  by (simp add: status_update_of_def update_post_insert_payload_def col_def)

lemma status_update_of_create_post_status_payload:
  "status_update_of (create_post_status_payload uuid rid description crowd chips queue) =
     \<lparr>s_id = VStr uuid, s_resource_id = rid, status_message = VStr description,
      crowd_level = VStr crowd, chips_available = VStr chips, queue_length = VStr queue,
      created_at = None\<rparr>"
  by (simp add: status_update_of_def create_post_status_payload_def col_def)

lemma update_status_fields_update_payload:
  "update_status_fields (update_payload description crowd chips queue) x =
     x\<lparr>crowd_level := VStr crowd, chips_available := VStr chips,
       queue_length := VStr queue, status_message := VStr description\<rparr>"
  by (simp add: update_status_fields_def update_payload_def col_def)

text \<open>
  C5. An \<open>update_post\<close> request from a session with a \<open>username\<close>,
  with the four form fields, redirects to the listing and leaves session, resources and
  upvotes alone. If no status row refers to the resource, one row is appended: its id is
  the generated one, its \<open>resource_id\<close> the one of the request, its four fields those of
  the form. If some status row refers to it, no row is added: every row that refers to
  the resource gets the four fields of the form and keeps the rest, every other row is
  as before.
\<close>

theorem update_post_upsert:
  assumes "s ''username'' \<noteq> None"
    and "req_form req ''description'' = Some description"
    and "req_form req ''crowd'' = Some crowd"
    and "req_form req ''chips'' = Some chips"
    and "req_form req ''queue'' = Some queue"
  shows "resp (update_post post_id req uuid s d) = Redirect ''index''
    \<and> sess (update_post post_id req uuid s d) = s
    \<and> resources (store (update_post post_id req uuid s d)) = resources d
    \<and> upvotes (store (update_post post_id req uuid s d)) = upvotes d
    \<and> ((\<forall>x \<in> set (status_updates d). s_resource_id x \<noteq> VStr post_id) \<longrightarrow>
           status_updates (store (update_post post_id req uuid s d)) =
             status_updates d @
               [\<lparr>s_id = VStr uuid, s_resource_id = VStr post_id, status_message = VStr description,
                 crowd_level = VStr crowd, chips_available = VStr chips, queue_length = VStr queue,
                 created_at = None\<rparr>])
    \<and> ((\<exists>x \<in> set (status_updates d). s_resource_id x = VStr post_id) \<longrightarrow>
           length (status_updates (store (update_post post_id req uuid s d)))
             = length (status_updates d)
           \<and> (\<forall>i < length (status_updates d).
                status_updates (store (update_post post_id req uuid s d)) ! i =
                  (if s_resource_id (status_updates d ! i) = VStr post_id
                   then (status_updates d ! i)
                          \<lparr>status_message := VStr description, crowd_level := VStr crowd,
                           chips_available := VStr chips, queue_length := VStr queue\<rparr>
                   else status_updates d ! i)))"
proof -
  let ?out = "update_post post_id req uuid s d"
  have run: "?out =
           \<lparr>resp = Redirect ''index'', sess = s,
            store = (if status_updates_eq d (VStr post_id) \<noteq> []
                     then update_status_updates_eq
                            (update_payload description crowd chips queue) (VStr post_id) d
                     else insert_status_update
                            (update_post_insert_payload uuid post_id description crowd chips queue) d)\<rparr>"
    using assms by (rule update_post_signed_in)
  have a: "resp ?out = Redirect ''index''"
    by (simp add: run)
  have b: "sess ?out = s"
    by (simp add: run)
  have c: "resources (store ?out) = resources d"
    by (simp add: run update_status_updates_eq_def eq_matches_def insert_status_update_def)
  have e: "upvotes (store ?out) = upvotes d"
    by (simp add: run update_status_updates_eq_def eq_matches_def insert_status_update_def)
  have f: "(\<forall>x \<in> set (status_updates d). s_resource_id x \<noteq> VStr post_id) \<longrightarrow>
           status_updates (store ?out) =
             status_updates d @
               [\<lparr>s_id = VStr uuid, s_resource_id = VStr post_id, status_message = VStr description,
                 crowd_level = VStr crowd, chips_available = VStr chips, queue_length = VStr queue,
                 created_at = None\<rparr>]"
    by (simp add: run status_updates_eq_def eq_matches_def filter_empty_conv
        insert_status_update_def
        status_update_of_update_post_insert_payload)
  have g: "(\<exists>x \<in> set (status_updates d). s_resource_id x = VStr post_id) \<longrightarrow>
           length (status_updates (store ?out)) = length (status_updates d)
           \<and> (\<forall>i < length (status_updates d).
                status_updates (store ?out) ! i =
                  (if s_resource_id (status_updates d ! i) = VStr post_id
                   then (status_updates d ! i)
                          \<lparr>status_message := VStr description, crowd_level := VStr crowd,
                           chips_available := VStr chips, queue_length := VStr queue\<rparr>
                   else status_updates d ! i))"
    by (auto simp: run status_updates_eq_def eq_matches_def filter_empty_conv
        update_status_updates_eq_def
        update_status_fields_update_payload)
  from a b c e f g show ?thesis by blast
qed

theorem update_post_upsert_witness:
  "resp (update_post ''r1'' example_post_request ''u9'' example_session example_db) = Redirect ''index''
   \<and> status_updates (store (update_post ''r1'' example_post_request ''u9'' example_session example_db))
       = status_updates example_db @
          [\<lparr>s_id = VStr ''u9'', s_resource_id = VStr ''r1'', status_message = VStr ''busy'',
            crowd_level = VStr ''high'', chips_available = VStr ''no'', queue_length = VStr ''12'',
            created_at = None\<rparr>]
   \<and> resp (update_post ''r2'' example_post_request ''u9'' example_session example_db) = Redirect ''index''
   \<and> length (status_updates (store (update_post ''r2'' example_post_request ''u9'' example_session example_db)))
       = 1
   \<and> status_updates (store (update_post ''r2'' example_post_request ''u9'' example_session example_db)) ! 0
       = \<lparr>s_id = VStr ''s1'', s_resource_id = VStr ''r2'', status_message = VStr ''busy'',
            crowd_level = VStr ''high'', chips_available = VStr ''no'', queue_length = VStr ''12'',
            created_at = None\<rparr>"
  using update_post_upsert [of example_session example_post_request "''busy''" "''high''" "''no''"
      "''12''" "''r1''" "''u9''" example_db]
    update_post_upsert [of example_session example_post_request "''busy''" "''high''" "''no''"
      "''12''" "''r2''" "''u9''" example_db]
  by (simp add: example_session_def example_post_request_def example_db_def)

text \<open>
  C6. A \<open>create_post\<close> POST from a session with a \<open>username\<close>, with the five form
  fields, appends one resource row and one status row, the \<open>resource_id\<close> of the status
  row being the id of the new resource row, and redirects to the listing.
\<close>

theorem create_post_inserts_linked_rows:
  assumes "s ''username'' \<noteq> None"
    and "req_method req = ''POST''"
    and "req_form req ''title'' = Some title"
    and "req_form req ''description'' = Some description"
    and "req_form req ''crowd'' = Some crowd"
    and "req_form req ''chips'' = Some chips"
    and "req_form req ''queue'' = Some queue"
  shows "resp (create_post req uuid1 uuid2 s d) = Redirect ''index''
    \<and> sess (create_post req uuid1 uuid2 s d) = s
    \<and> resources (store (create_post req uuid1 uuid2 s d)) =
        resources d @ [\<lparr>r_id = VStr uuid1, r_name = VStr title, r_image_url = VNone\<rparr>]
    \<and> status_updates (store (create_post req uuid1 uuid2 s d)) =
        status_updates d @
          [\<lparr>s_id = VStr uuid2, s_resource_id = VStr uuid1, status_message = VStr description,
            crowd_level = VStr crowd, chips_available = VStr chips, queue_length = VStr queue,
            created_at = None\<rparr>]
    \<and> s_resource_id (last (status_updates (store (create_post req uuid1 uuid2 s d))))
        = r_id (last (resources (store (create_post req uuid1 uuid2 s d))))
    \<and> upvotes (store (create_post req uuid1 uuid2 s d)) = upvotes d"
proof -
  have run: "create_post req uuid1 uuid2 s d =
           \<lparr>resp = Redirect ''index'', sess = s,
            store = insert_status_update
                      (create_post_status_payload uuid2 (VStr uuid1) description crowd chips queue)
                      (insert_resource [(''id'', VStr uuid1), (''name'', VStr title)] d)\<rparr>"
    using assms by (rule create_post_signed_in)
  show ?thesis
    by (simp add: run insert_status_update_def insert_resource_def resource_of_def col_def
        status_update_of_create_post_status_payload)
qed

theorem create_post_inserts_linked_rows_witness:
  "resp (create_post example_post_request ''u8'' ''u9'' example_session example_db) = Redirect ''index''
   \<and> length (resources (store (create_post example_post_request ''u8'' ''u9'' example_session example_db)))
       = length (resources example_db) + 1
   \<and> length (status_updates (store (create_post example_post_request ''u8'' ''u9'' example_session example_db)))
       = length (status_updates example_db) + 1
   \<and> s_resource_id (last (status_updates (store (create_post example_post_request ''u8'' ''u9'' example_session example_db))))
       = VStr ''u8''
   \<and> r_id (last (resources (store (create_post example_post_request ''u8'' ''u9'' example_session example_db))))
       = VStr ''u8''"
  using create_post_inserts_linked_rows [of example_session example_post_request "''Gym''" "''busy''"
      "''high''" "''no''" "''12''" "''u8''" "''u9''" example_db]
  by (simp add: example_session_def example_post_request_def)

section \<open>The ordering column\<close>













end
